theory Spec2Isabelle
  imports Main "HOL-Library.Word" "HOL-Library.AList"
begin

section \<open>JavaScript values, strings and promises\<close>

text \<open>
  The values that cross the boundary between the library and its HTTP transport
  (\<^verbatim>\<open>res.data\<close>, a caught exception) are untyped at run time. \<open>JError m\<close> is an
  \<^verbatim>\<open>Error\<close> object with message \<open>m\<close>; \<open>JObj\<close> is an object given by its own
  properties. Numbers are only tested for truthiness, so integers stand for them.
  A JavaScript string is modelled by \<open>string\<close>, one \<open>char\<close> per code unit.
\<close>

datatype jsvalue =
    JUndefined
  | JNull
  | JBool bool
  | JNum int
  | JStr string
  | JObj "(string \<times> jsvalue) list"
  | JError string

text \<open>\<^verbatim>\<open>if (v)\<close> and \<^verbatim>\<open>!v\<close>: the falsy values are undefined, null, false, 0 and the empty string.\<close>

fun truthy :: "jsvalue \<Rightarrow> bool" where
  "truthy JUndefined = False"
| "truthy JNull = False"
| "truthy (JBool b) = b"
| "truthy (JNum n) = (n \<noteq> 0)"
| "truthy (JStr s) = (s \<noteq> [])"
| "truthy (JObj ps) = True"
| "truthy (JError m) = True"

text \<open>Truthiness of a field of type \<^verbatim>\<open>string | undefined\<close> (or \<^verbatim>\<open>string | null\<close>).\<close>

fun truthy_string :: "string option \<Rightarrow> bool" where
  "truthy_string None = False"
| "truthy_string (Some s) = (s \<noteq> [])"


text \<open>
  Reading the property \<open>k\<close> in a destructuring pattern \<^verbatim>\<open>const { k } = v\<close>: a
  \<^verbatim>\<open>TypeError\<close> on null and undefined, the own property of an object, and
  \<^verbatim>\<open>undefined\<close> for a property that is not there.
\<close>

fun destructure :: "jsvalue \<Rightarrow> string \<Rightarrow> jsvalue + jsvalue" where
  "destructure JUndefined k = Inl (JError ''TypeError: cannot destructure undefined'')"
| "destructure JNull k = Inl (JError ''TypeError: cannot destructure null'')"
| "destructure (JObj ps) k = (case map_of ps k of None \<Rightarrow> Inr JUndefined | Some v \<Rightarrow> Inr v)"
| "destructure (JBool b) k = Inr JUndefined"
| "destructure (JNum n) k = Inr JUndefined"
| "destructure (JStr s) k = Inr JUndefined"
| "destructure (JError m) k = Inr JUndefined"

subsection \<open>String methods\<close>

definition startsWith :: "string \<Rightarrow> string \<Rightarrow> bool" where
  "startsWith s p = (take (length p) s = p)"

definition endsWith :: "string \<Rightarrow> string \<Rightarrow> bool" where
  "endsWith s x = (length x \<le> length s \<and> drop (length s - length x) s = x)"

text \<open>\<^verbatim>\<open>s.indexOf(c)\<close> for a one-character \<open>c\<close>: the first position, or -1.\<close>

definition indexOf :: "string \<Rightarrow> char \<Rightarrow> int" where
  "indexOf s c = (if c \<in> set s then int (length (takeWhile (\<lambda>x. x \<noteq> c) s)) else - 1)"

text \<open>\<^verbatim>\<open>s.substring(i)\<close> and \<^verbatim>\<open>s.substring(0, j)\<close>; a negative index counts as 0.\<close>

definition substring_from :: "string \<Rightarrow> int \<Rightarrow> string" where
  "substring_from s i = drop (nat i) s"

definition substring_to :: "string \<Rightarrow> int \<Rightarrow> string" where
  "substring_to s j = take (nat j) s"

text \<open>
  \<^verbatim>\<open>data.match(/^data:([^,]+)?,/)\<close>. The pattern is anchored at the start: the
  literal \<^verbatim>\<open>data:\<close>, then an optional greedy group of one or more characters other
  than a comma, then a comma. The group can only be the whole run of non-commas
  after the prefix, since the character after the group has to be a comma.
  The result is \<open>None\<close> for \<^verbatim>\<open>null\<close> (no match), and otherwise \<open>Some g\<close> with
  \<open>g\<close> the capture \<^verbatim>\<open>matches[1]\<close>, which is \<open>None\<close> (\<^verbatim>\<open>undefined\<close>) when the
  group took no part in the match.
\<close>

definition match_data_url :: "string \<Rightarrow> string option option" where
  "match_data_url d =
     (if startsWith d ''data:'' then
        (let rest = drop 5 d;
             grp = takeWhile (\<lambda>c. c \<noteq> CHR '','') rest
         in case dropWhile (\<lambda>c. c \<noteq> CHR '','') rest of
              [] \<Rightarrow> None
            | comma # after \<Rightarrow> Some (if grp = [] then None else Some grp))
      else None)"

subsection \<open>Files and form data\<close>

type_synonym bytes = "8 word list"

text \<open>
  A \<^verbatim>\<open>File\<close> as \<^verbatim>\<open>new File([bits], name, { type })\<close> builds it; \<open>fileType\<close> is the
  \<^verbatim>\<open>type\<close> option as passed, \<open>None\<close> for \<^verbatim>\<open>undefined\<close>.
\<close>

record File =
  fileBits :: bytes
  fileName :: string
  fileType :: "string option"

text \<open>A \<^verbatim>\<open>FormData\<close>: its entries, in the order they were appended.\<close>

type_synonym FormData = "(string \<times> File) list"

definition append :: "FormData \<Rightarrow> string \<Rightarrow> File \<Rightarrow> FormData" where
  "append fd k f = fd @ [(k, f)]"

text \<open>The caller's progress callback, known by a handle.\<close>

datatype callback = Callback nat

subsection \<open>Requests and the transport\<close>

datatype http_method = GET | POST | DELETE

type_synonym headers = "(string \<times> string) list"

record request =
  req_method :: http_method
  req_baseURL :: string
  req_timeout :: nat
  req_url :: string
  req_headers :: headers
  req_data :: "FormData option"
  req_onUploadProgress :: "callback option"

text \<open>
  The HTTP transport (axios, the network and the server) is outside the
  repository: it is a parameter. For a request it either rejects with a thrown
  value (\<open>Inl\<close>) or resolves with a response whose body \<^verbatim>\<open>res.data\<close> is the value
  (\<open>Inr\<close>).
\<close>

type_synonym transport = "request \<Rightarrow> jsvalue + jsvalue"

text \<open>
  The outcome of an \<^verbatim>\<open>async\<close> function: the promise rejects (\<open>Inl\<close>, which is also
  what a \<^verbatim>\<open>throw\<close> in its body does) or fulfils (\<open>Inr\<close>), together with the
  requests the call handed to the transport, in order.
\<close>

type_synonym 'a promise = "(jsvalue + 'a) \<times> request list"

definition resolve :: "'a \<Rightarrow> 'a promise" where
  "resolve v = (Inr v, [])"

definition reject :: "jsvalue \<Rightarrow> 'a promise" where
  "reject e = (Inl e, [])"

text \<open>\<^verbatim>\<open>const v = await m; k v\<close>: a rejection of \<open>m\<close> ends the function.\<close>

definition await :: "'a promise \<Rightarrow> ('a \<Rightarrow> 'b promise) \<Rightarrow> 'b promise" where
  "await m k =
     (case m of
        (Inl e, rs) \<Rightarrow> (Inl e, rs)
      | (Inr v, rs) \<Rightarrow> (case k v of (r, rs') \<Rightarrow> (r, rs @ rs')))"

text \<open>\<^verbatim>\<open>try { m } catch (error) { h error }\<close>.\<close>

definition try_catch :: "'a promise \<Rightarrow> (jsvalue \<Rightarrow> 'a promise) \<Rightarrow> 'a promise" where
  "try_catch m h =
     (case m of
        (Inl e, rs) \<Rightarrow> (case h e of (r, rs') \<Rightarrow> (r, rs @ rs'))
      | (Inr v, rs) \<Rightarrow> (Inr v, rs))"

text \<open>
  An object literal with spreads: \<^verbatim>\<open>{ ...a, ...b }\<close> copies the properties of
  \<open>b\<close> over those of \<open>a\<close>, a key that is already there keeping its place;
  spreading \<^verbatim>\<open>null\<close> adds nothing.
\<close>

definition spread :: "headers \<Rightarrow> headers option \<Rightarrow> headers" where
  "spread h src =
     (case src of
        None \<Rightarrow> h
      | Some ps \<Rightarrow> fold (\<lambda>kv acc. AList.update (fst kv) (snd kv) acc) ps h)"

section \<open>The transport adapter: hasura-storage-api.ts\<close>

record AxiosInstance =
  baseURL :: string
  timeout :: nat

record HasuraStorageApi =
  api_url :: string
  httpClient :: AxiosInstance
  accessToken :: "string option"
  api_appId :: "string option"

text \<open>The constructor of the adapter (lines 19-29).\<close>

definition new_HasuraStorageApi :: "string \<Rightarrow> string option \<Rightarrow> HasuraStorageApi" where
  "new_HasuraStorageApi u a =
     \<lparr>api_url = u,
      httpClient =
        \<lparr>baseURL =
           (case a of
              None \<Rightarrow> u
            | Some i \<Rightarrow> if i \<noteq> [] then u @ ''/custom/storage/'' @ i else u),
         timeout = 10000\<rparr>,
      accessToken = None,
      api_appId = a\<rparr>"

text \<open>
  \<^verbatim>\<open>ApiUploadParams\<close> and \<^verbatim>\<open>StorageUploadParams\<close>: the same optional identifying
  fields around a \<^verbatim>\<open>file\<close> (a \<^verbatim>\<open>File\<close> for the facade, the form data for the
  adapter). The field \<^verbatim>\<open>id\<close> is \<open>id'\<close> here.
\<close>

record 'f UploadParams =
  upload_file :: 'f
  bucketId :: "string option"
  id' :: "string option"
  name :: "string option"

text \<open>Responses: every one has \<^verbatim>\<open>error\<close>; the others add their value field.\<close>

record ApiDeleteResponse =
  error :: jsvalue

record ApiUploadResponse = ApiDeleteResponse +
  fileMetadata :: jsvalue

record ApiGetPresignedUrlResponse = ApiDeleteResponse +
  presignedUrl :: jsvalue

record StorageMetadataResponse = ApiDeleteResponse +
  metadata :: jsvalue

definition api_setAccessToken :: "HasuraStorageApi \<Rightarrow> string option \<Rightarrow> HasuraStorageApi" where
  "api_setAccessToken this t = this\<lparr>accessToken := t\<rparr>"

definition generateUploadHeaders :: "'f UploadParams \<Rightarrow> headers" where
  "generateUploadHeaders params =
     (let uploadheaders = [];
          uploadheaders =
            (case bucketId params of
               None \<Rightarrow> uploadheaders
             | Some b \<Rightarrow>
                 if b \<noteq> [] then AList.update ''x-nhost-bucket-id'' b uploadheaders
                 else uploadheaders);
          uploadheaders =
            (case id' params of
               None \<Rightarrow> uploadheaders
             | Some i \<Rightarrow>
                 if i \<noteq> [] then AList.update ''x-nhost-file-id'' i uploadheaders
                 else uploadheaders);
          uploadheaders =
            (case name params of
               None \<Rightarrow> uploadheaders
             | Some n \<Rightarrow>
                 if n \<noteq> [] then AList.update ''x-nhost-file-name'' n uploadheaders
                 else uploadheaders)
      in uploadheaders)"

definition generateAuthHeaders :: "HasuraStorageApi \<Rightarrow> headers option" where
  "generateAuthHeaders this =
     (if \<not> truthy_string (accessToken this) then None
      else case accessToken this of
             None \<Rightarrow> None
           | Some t \<Rightarrow> Some [(''Authorization'', ''Bearer '' @ t)])"

text \<open>
  \<^verbatim>\<open>this.httpClient.post(url, data, config)\<close>, \<^verbatim>\<open>.get(url, config)\<close> and
  \<^verbatim>\<open>.delete(url, config)\<close>: the instance adds its base URL and timeout, and the
  request goes to the transport.
\<close>

definition httpClient_post ::
  "AxiosInstance \<Rightarrow> transport \<Rightarrow> string \<Rightarrow> FormData \<Rightarrow> headers \<Rightarrow> callback option
     \<Rightarrow> jsvalue promise" where
  "httpClient_post c tr u d h p =
     (let rq = \<lparr>req_method = POST, req_baseURL = baseURL c, req_timeout = timeout c,
                req_url = u, req_headers = h, req_data = Some d,
                req_onUploadProgress = p\<rparr>
      in (tr rq, [rq]))"

definition httpClient_get ::
  "AxiosInstance \<Rightarrow> transport \<Rightarrow> string \<Rightarrow> headers \<Rightarrow> jsvalue promise" where
  "httpClient_get c tr u h =
     (let rq = \<lparr>req_method = GET, req_baseURL = baseURL c, req_timeout = timeout c,
                req_url = u, req_headers = h, req_data = None,
                req_onUploadProgress = None\<rparr>
      in (tr rq, [rq]))"

definition httpClient_delete ::
  "AxiosInstance \<Rightarrow> transport \<Rightarrow> string \<Rightarrow> headers \<Rightarrow> jsvalue promise" where
  "httpClient_delete c tr u h =
     (let rq = \<lparr>req_method = DELETE, req_baseURL = baseURL c, req_timeout = timeout c,
                req_url = u, req_headers = h, req_data = None,
                req_onUploadProgress = None\<rparr>
      in (tr rq, [rq]))"

text \<open>\<^verbatim>\<open>upload\<close> (lines 31-44).\<close>

definition api_upload ::
  "HasuraStorageApi \<Rightarrow> transport \<Rightarrow> FormData UploadParams \<Rightarrow> ApiUploadResponse promise" where
  "api_upload this tr params =
     try_catch
       (await
          (httpClient_post (httpClient this) tr ''/files'' (upload_file params)
             (spread (spread [] (Some (generateUploadHeaders params)))
                (generateAuthHeaders this))
             None)
          (\<lambda>res_data. resolve \<lparr>error = JNull, fileMetadata = res_data\<rparr>))
       (\<lambda>error. resolve \<lparr>error = error, fileMetadata = JNull\<rparr>)"

text \<open>\<^verbatim>\<open>getPresignedUrl\<close> (lines 46-60).\<close>

definition api_getPresignedUrl ::
  "HasuraStorageApi \<Rightarrow> transport \<Rightarrow> string \<Rightarrow> ApiGetPresignedUrlResponse promise" where
  "api_getPresignedUrl this tr fileId =
     try_catch
       (await
          (httpClient_get (httpClient this) tr (''/files/'' @ fileId @ ''/presignedurl'')
             (spread [] (generateAuthHeaders this)))
          (\<lambda>res_data. resolve \<lparr>error = JNull, presignedUrl = res_data\<rparr>))
       (\<lambda>error. resolve \<lparr>error = error, presignedUrl = JNull\<rparr>)"

text \<open>\<^verbatim>\<open>delete\<close> (lines 62-74).\<close>

definition api_delete ::
  "HasuraStorageApi \<Rightarrow> transport \<Rightarrow> string \<Rightarrow> ApiDeleteResponse promise" where
  "api_delete this tr fileId =
     try_catch
       (await
          (httpClient_delete (httpClient this) tr (''/files/'' @ fileId)
             (spread [] (generateAuthHeaders this)))
          (\<lambda>res_data. resolve \<lparr>error = JNull\<rparr>))
       (\<lambda>error. resolve \<lparr>error = error\<rparr>)"

text \<open>\<^verbatim>\<open>uploadFile\<close> (lines 106-127).\<close>

definition api_uploadFile ::
  "HasuraStorageApi \<Rightarrow> transport \<Rightarrow> string \<Rightarrow> FormData \<Rightarrow> callback option
     \<Rightarrow> ApiUploadResponse promise" where
  "api_uploadFile this tr path formData onUploadProgress =
     try_catch
       (await
          (httpClient_post (httpClient this) tr (''/o'' @ path) formData
             (spread [(''Content-Type'', ''multipart/form-data'')] (generateAuthHeaders this))
             onUploadProgress)
          (\<lambda>res_data. resolve \<lparr>error = JNull, fileMetadata = res_data\<rparr>))
       (\<lambda>error. resolve \<lparr>error = error, fileMetadata = JNull\<rparr>)"

text \<open>\<^verbatim>\<open>deleteFile\<close> (lines 129-140).\<close>

definition api_deleteFile ::
  "HasuraStorageApi \<Rightarrow> transport \<Rightarrow> string \<Rightarrow> ApiDeleteResponse promise" where
  "api_deleteFile this tr path =
     try_catch
       (await
          (httpClient_delete (httpClient this) tr (''/o'' @ path)
             (spread [] (generateAuthHeaders this)))
          (\<lambda>res_data. resolve \<lparr>error = JNull\<rparr>))
       (\<lambda>error. resolve \<lparr>error = error\<rparr>)"

text \<open>
  \<^verbatim>\<open>getMetadata\<close> (lines 142-149): no \<^verbatim>\<open>try\<close>; the body of the response is
  returned as it is.
\<close>

definition api_getMetadata ::
  "HasuraStorageApi \<Rightarrow> transport \<Rightarrow> string \<Rightarrow> jsvalue promise" where
  "api_getMetadata this tr path =
     await
       (httpClient_get (httpClient this) tr (''/m'' @ path)
          (spread [] (generateAuthHeaders this)))
       (\<lambda>res_data. resolve res_data)"

section \<open>The facade: hasura-storage-client.ts\<close>

record HasuraStorageClient =
  url :: string
  api :: HasuraStorageApi
  appId :: "string option"

text \<open>The constructor (lines 21-25); \<^verbatim>\<open>appId\<close> defaults to \<^verbatim>\<open>null\<close>.\<close>

definition new_HasuraStorageClient :: "string \<Rightarrow> string option \<Rightarrow> HasuraStorageClient" where
  "new_HasuraStorageClient u a = \<lparr>url = u, api = new_HasuraStorageApi u a, appId = a\<rparr>"

text \<open>
  \<^verbatim>\<open>upload\<close> (lines 36-55). The facade's responses have the shape of the
  adapter's, so the same records stand for them.
\<close>

definition upload ::
  "HasuraStorageClient \<Rightarrow> transport \<Rightarrow> File UploadParams \<Rightarrow> ApiUploadResponse promise" where
  "upload this tr params =
     (let file = append [] ''file'' (upload_file params)
      in await
           (api_upload (api this) tr
              \<lparr>upload_file = file, bucketId = bucketId params, id' = id' params,
               name = name params\<rparr>)
           (\<lambda>resp.
              if truthy (error resp) then resolve \<lparr>error = error resp, fileMetadata = JNull\<rparr>
              else if \<not> truthy (fileMetadata resp) then
                resolve \<lparr>error = JError ''Invalid file returned'', fileMetadata = JNull\<rparr>
              else resolve \<lparr>error = JNull, fileMetadata = fileMetadata resp\<rparr>))"

text \<open>\<^verbatim>\<open>getUrl\<close> (lines 66-71).\<close>

definition getUrl :: "HasuraStorageClient \<Rightarrow> string \<Rightarrow> string" where
  "getUrl this fileId =
     (if truthy_string (appId this) then
        (case appId this of
           None \<Rightarrow> url this @ ''/files/'' @ fileId
         | Some a \<Rightarrow> ''/custom/storage/'' @ a @ ''/o/'' @ fileId)
      else url this @ ''/files/'' @ fileId)"


text \<open>\<^verbatim>\<open>delete\<close> (lines 108-117).\<close>

definition delete ::
  "HasuraStorageClient \<Rightarrow> transport \<Rightarrow> string \<Rightarrow> ApiDeleteResponse promise" where
  "delete this tr fileId =
     await (api_delete (api this) tr fileId)
       (\<lambda>resp.
          if truthy (error resp) then resolve \<lparr>error = error resp\<rparr>
          else resolve \<lparr>error = JNull\<rparr>)"

text \<open>\<^verbatim>\<open>deleteFile\<close> (lines 202-212).\<close>

definition deleteFile ::
  "HasuraStorageClient \<Rightarrow> transport \<Rightarrow> string \<Rightarrow> ApiDeleteResponse promise" where
  "deleteFile this tr path =
     (if \<not> startsWith path ''/'' then
        resolve \<lparr>error = JError ''`path` must start with `/`''\<rparr>
      else
        await (api_deleteFile (api this) tr path)
          (\<lambda>resp.
             if truthy (error resp) then resolve \<lparr>error = error resp\<rparr>
             else resolve \<lparr>error = JNull\<rparr>))"

text \<open>
  \<^verbatim>\<open>getS3Metadata\<close> (lines 214-224). The adapter hands back the body of the
  response, and \<^verbatim>\<open>const { metadata, error } = ...\<close> reads the two properties off
  it.
\<close>

definition getS3Metadata ::
  "HasuraStorageClient \<Rightarrow> transport \<Rightarrow> string \<Rightarrow> StorageMetadataResponse promise" where
  "getS3Metadata this tr path =
     (if \<not> startsWith path ''/'' then
        resolve \<lparr>error = JError ''`path` must start with `/`'', metadata = JNull\<rparr>
      else
        await (api_getMetadata (api this) tr path)
          (\<lambda>res.
             case destructure res ''metadata'' of
               Inl e \<Rightarrow> reject e
             | Inr md \<Rightarrow>
                 (case destructure res ''error'' of
                    Inl e \<Rightarrow> reject e
                  | Inr err \<Rightarrow>
                      if truthy err then resolve \<lparr>error = err, metadata = JNull\<rparr>
                      else resolve \<lparr>error = JNull, metadata = md\<rparr>)))"

text \<open>\<^verbatim>\<open>setAccessToken\<close> (lines 226-228).\<close>

definition setAccessToken :: "HasuraStorageClient \<Rightarrow> string option \<Rightarrow> HasuraStorageClient" where
  "setAccessToken this t = this\<lparr>api := api_setAccessToken (api this) t\<rparr>"

text \<open>
  The parameter objects of the two path-addressed uploads, \<^verbatim>\<open>StorageUploadFile\<close>
  and \<^verbatim>\<open>StorageUploadString\<close>, share \<^verbatim>\<open>path\<close> and \<^verbatim>\<open>onUploadProgress\<close>. The field
  \<^verbatim>\<open>metadata\<close> of the second is \<open>metadata'\<close> here, the field \<^verbatim>\<open>file\<close> of the first
  is \<open>file'\<close>.
\<close>

record path_params =
  path :: string
  onUploadProgress :: "callback option"

record StorageUploadFile = path_params +
  file' :: File

record StorageUploadString = path_params +
  data :: string
  type :: "string option"
  metadata' :: "headers option"

text \<open>\<^verbatim>\<open>uploadFileToStorage\<close> (lines 119-141).\<close>

definition uploadFileToStorage ::
  "HasuraStorageClient \<Rightarrow> transport \<Rightarrow> StorageUploadFile \<Rightarrow> ApiUploadResponse promise" where
  "uploadFileToStorage this tr params =
     (if \<not> startsWith (path params) ''/'' then reject (JError ''`path` must start with `/`'')
      else
        let formData = append [] ''file'' (file' params)
        in await
             (api_uploadFile (api this) tr (path params) formData (onUploadProgress params))
             (\<lambda>resp.
                if truthy (error resp) then
                  resolve \<lparr>error = error resp, fileMetadata = JNull\<rparr>
                else if \<not> truthy (fileMetadata resp) then
                  resolve \<lparr>error = JError ''Invalid file returned'', fileMetadata = JNull\<rparr>
                else resolve \<lparr>error = JNull, fileMetadata = fileMetadata resp\<rparr>))"

text \<open>
  The helpers \<^verbatim>\<open>utf8Bytes\<close>, \<^verbatim>\<open>base64Bytes\<close> and \<^verbatim>\<open>percentEncodedBytes\<close> and the
  constant \<^verbatim>\<open>StringFormat.BASE64\<close> come from \<^verbatim>\<open>./utils\<close>, which is not among the
  sources. The upload takes them as a parameter: each turns a string into bytes
  or throws.
\<close>

datatype StringFormat = BASE64

record utils =
  utf8Bytes :: "string \<Rightarrow> jsvalue + bytes"
  base64Bytes :: "StringFormat \<Rightarrow> string \<Rightarrow> jsvalue + bytes"
  percentEncodedBytes :: "string \<Rightarrow> jsvalue + bytes"

text \<open>
  Lines 150-176 of \<^verbatim>\<open>uploadStringToStorage\<close>: what the two branches on
  \<^verbatim>\<open>params.type\<close> leave in \<^verbatim>\<open>fileData\<close> (\<open>None\<close> while unassigned) and
  \<^verbatim>\<open>contentType\<close>, or the value they throw.
\<close>

definition uploadString_fileData ::
  "utils \<Rightarrow> StorageUploadString \<Rightarrow> jsvalue + (bytes option \<times> string option)" where
  "uploadString_fileData u params =
     (if type params = Some ''raw'' then
        (case utf8Bytes u (data params) of
           Inl e \<Rightarrow> Inl e
         | Inr fileData \<Rightarrow>
             Inr (Some fileData,
                  (case metadata' params of
                     None \<Rightarrow> None
                   | Some m \<Rightarrow> map_of m ''content-type'')))
      else if type params = Some ''data_url'' then
        (case match_data_url (data params) of
           None \<Rightarrow>
             Inl (JStr ''Data must be formatted 'data:[<mediatype>][;base64],<data>'')
         | Some matches1 \<Rightarrow>
             let middle = (if truthy_string matches1 then matches1 else None);
                 isBase64 =
                   (case middle of
                      None \<Rightarrow> False
                    | Some m \<Rightarrow> endsWith m '';base64'');
                 contentType =
                   (case middle of
                      None \<Rightarrow> None
                    | Some m \<Rightarrow>
                        Some (if isBase64 then
                                substring_to m
                                  (int (length m) - int (length '';base64''))
                              else m));
                 restData =
                   substring_from (data params)
                     (indexOf (data params) CHR '','' + 1)
             in (case (if isBase64 then base64Bytes u BASE64 restData
                       else percentEncodedBytes u restData) of
                   Inl e \<Rightarrow> Inl e
                 | Inr fileData \<Rightarrow> Inr (Some fileData, contentType)))
      else Inr (None, None))"

text \<open>
  \<^verbatim>\<open>uploadStringToStorage\<close> (lines 143-200). The function assigns to
  \<^verbatim>\<open>params.type\<close>, so the parameter object as the caller finds it afterwards is
  the second component of the result.
\<close>

definition uploadStringToStorage ::
  "utils \<Rightarrow> HasuraStorageClient \<Rightarrow> transport \<Rightarrow> StorageUploadString
     \<Rightarrow> ApiUploadResponse promise \<times> StorageUploadString" where
  "uploadStringToStorage u this tr params0 =
     (if \<not> startsWith (path params0) ''/'' then
        (reject (JError ''`path` must start with `/`''), params0)
      else
        let params =
              (if \<not> truthy_string (type params0) then params0\<lparr>type := Some ''raw''\<rparr>
               else params0)
        in (case uploadString_fileData u params of
              Inl e \<Rightarrow> (reject e, params)
            | Inr (fileData, contentType) \<Rightarrow>
                (case fileData of
                   None \<Rightarrow> (reject (JError ''Unbale to generate file data''), params)
                 | Some bits \<Rightarrow>
                     let file = \<lparr>fileBits = bits, fileName = ''untitled'',
                                 fileType = contentType\<rparr>;
                         formData = append [] ''file'' file
                     in (await
                           (api_uploadFile (api this) tr (path params) formData
                              (onUploadProgress params))
                           (\<lambda>resp.
                              if truthy (error resp) then
                                resolve \<lparr>error = error resp, fileMetadata = JNull\<rparr>
                              else if \<not> truthy (fileMetadata resp) then
                                resolve \<lparr>error = JError ''Invalid file returned'',
                                         fileMetadata = JNull\<rparr>
                              else resolve \<lparr>error = JNull,
                                            fileMetadata = fileMetadata resp\<rparr>),
                         params))))"

section \<open>The decoders of ./utils\<close>

text \<open>
  The helpers \<^verbatim>\<open>utf8Bytes\<close>, \<^verbatim>\<open>base64Bytes\<close> and \<^verbatim>\<open>percentEncodedBytes\<close> of
  \<^verbatim>\<open>./utils\<close> are missing from the sources. The spec says of them: the payload
  of a raw string is the UTF-8 byte encoding of the string; the payload of a
  data URL is base64-decoded if it is marked \<^verbatim>\<open>;base64\<close>, else percent-decoded
  (URL-decoded). The definitions of this section follow these words. Only the
  worked examples of C5 rest on them: every other statement holds for all
  helpers.
\<close>

text \<open>
  Modelled from the spec: the UTF-8 bytes of one character (one code unit below
  256: one byte below 128, else two).
\<close>

definition utf8_char :: "char \<Rightarrow> bytes" where
  "utf8_char c =
     (let n = (of_char c :: nat)
      in if n < 128 then [of_nat n]
         else [of_nat (192 + n div 64), of_nat (128 + n mod 64)])"

text \<open>
  Modelled from the spec: \<^verbatim>\<open>utf8Bytes\<close> of \<^verbatim>\<open>./utils\<close> is missing; the payload of a
  raw string is the UTF-8 byte encoding of the string.
\<close>

definition spec_utf8Bytes :: "string \<Rightarrow> jsvalue + bytes" where
  "spec_utf8Bytes s = Inr (concat (map utf8_char s))"

text \<open>
  Modelled from the spec: the digits of base64, taken to be the standard
  alphabet A-Z, a-z, 0-9, + and /.
\<close>

definition base64_value :: "char \<Rightarrow> nat option" where
  "base64_value c =
     (let n = (of_char c :: nat)
      in if 65 \<le> n \<and> n \<le> 90 then Some (n - 65)
         else if 97 \<le> n \<and> n \<le> 122 then Some (n - 71)
         else if 48 \<le> n \<and> n \<le> 57 then Some (n + 4)
         else if n = 43 then Some 62
         else if n = 47 then Some 63
         else None)"

text \<open>
  Modelled from the spec: base64 decoding of the digits. Four 6-bit digits give
  three bytes; three give two, two give one.
\<close>

fun base64_groups :: "nat list \<Rightarrow> bytes option" where
  "base64_groups (a # b # c # d # r) =
     map_option
       (\<lambda>bs. [of_nat (a * 4 + b div 16), of_nat ((b mod 16) * 16 + c div 4),
              of_nat ((c mod 4) * 64 + d)] @ bs)
       (base64_groups r)"
| "base64_groups [a, b, c] =
     Some [of_nat (a * 4 + b div 16), of_nat ((b mod 16) * 16 + c div 4)]"
| "base64_groups [a, b] = Some [of_nat (a * 4 + b div 16)]"
| "base64_groups [a] = None"
| "base64_groups [] = Some []"

text \<open>Modelled from the spec: the padding of base64, one or two \<^verbatim>\<open>=\<close> at the end.\<close>

definition strip_padding :: "string \<Rightarrow> string" where
  "strip_padding s =
     (if endsWith s ''=='' then take (length s - 2) s
      else if endsWith s ''='' then take (length s - 1) s
      else s)"

text \<open>
  Modelled from the spec: \<^verbatim>\<open>base64Bytes\<close> of \<^verbatim>\<open>./utils\<close> is missing; it
  base64-decodes the payload, here with the padding optional and a character
  outside the alphabet or a lone last digit refused.
\<close>

definition spec_base64Bytes :: "StringFormat \<Rightarrow> string \<Rightarrow> jsvalue + bytes" where
  "spec_base64Bytes format s =
     (case those (map base64_value (strip_padding s)) of
        None \<Rightarrow> Inl (JError ''Invalid base64 string'')
      | Some vs \<Rightarrow>
          (case base64_groups vs of
             None \<Rightarrow> Inl (JError ''Invalid base64 string'')
           | Some bs \<Rightarrow> Inr bs))"

text \<open>Modelled from the spec: the hexadecimal digits of a percent escape.\<close>

definition hex_value :: "char \<Rightarrow> nat option" where
  "hex_value c =
     (let n = (of_char c :: nat)
      in if 48 \<le> n \<and> n \<le> 57 then Some (n - 48)
         else if 65 \<le> n \<and> n \<le> 70 then Some (n - 55)
         else if 97 \<le> n \<and> n \<le> 102 then Some (n - 87)
         else None)"

text \<open>
  Modelled from the spec: percent-decoding. \<^verbatim>\<open>%XY\<close> is the byte with
  hexadecimal digits \<open>X\<close>, \<open>Y\<close>; any other character stands for its own UTF-8
  bytes; a \<^verbatim>\<open>%\<close> that two hexadecimal digits do not follow is malformed.
\<close>

fun percent_decode :: "string \<Rightarrow> bytes option" where
  "percent_decode [] = Some []"
| "percent_decode (c # h1 # h2 # r) =
     (if c = CHR ''%'' then
        (case (hex_value h1, hex_value h2) of
           (Some a, Some b) \<Rightarrow>
             map_option (\<lambda>bs. of_nat (16 * a + b) # bs) (percent_decode r)
         | _ \<Rightarrow> None)
      else map_option (\<lambda>bs. utf8_char c @ bs) (percent_decode (h1 # h2 # r)))"
| "percent_decode (c # r) =
     (if c = CHR ''%'' then None
      else map_option (\<lambda>bs. utf8_char c @ bs) (percent_decode r))"

text \<open>
  Modelled from the spec: \<^verbatim>\<open>percentEncodedBytes\<close> of \<^verbatim>\<open>./utils\<close> is missing; it
  percent-decodes (URL-decodes) the payload.
\<close>

definition spec_percentEncodedBytes :: "string \<Rightarrow> jsvalue + bytes" where
  "spec_percentEncodedBytes s =
     (case percent_decode s of
        None \<Rightarrow> Inl (JError ''URIError: URI malformed'')
      | Some bs \<Rightarrow> Inr bs)"

text \<open>Modelled from the spec: the three helpers of \<^verbatim>\<open>./utils\<close> together.\<close>

definition spec_utils :: utils where
  "spec_utils =
     \<lparr>utf8Bytes = spec_utf8Bytes, base64Bytes = spec_base64Bytes,
      percentEncodedBytes = spec_percentEncodedBytes\<rparr>"

section \<open>Example transports and inputs\<close>

text \<open>A server that answers every request with success and a null body.\<close>

definition transport_null_body :: transport where
  "transport_null_body rq = Inr JNull"

text \<open>A server that answers every request with the metadata of a stored file.\<close>

definition transport_ok :: transport where
  "transport_ok rq = Inr (JObj [(''id'', JStr ''f1'')])"

text \<open>A network that fails every request.\<close>

definition transport_down :: transport where
  "transport_down rq = Inl (JError ''Network Error'')"


definition example_file :: File where
  "example_file = \<lparr>fileBits = [1, 2, 3], fileName = ''a.bin'', fileType = None\<rparr>"

definition example_client :: HasuraStorageClient where
  "example_client = new_HasuraStorageClient ''https://storage.example'' None"

definition example_upload :: "FormData UploadParams" where
  "example_upload =
     \<lparr>upload_file = [(''file'', example_file)], bucketId = Some ''b1'', id' = None,
      name = Some ''a.bin''\<rparr>"

definition example_storage_upload :: "File UploadParams" where
  "example_storage_upload =
     \<lparr>upload_file = example_file, bucketId = None, id' = Some ''f1'', name = None\<rparr>"

definition example_upload_file :: StorageUploadFile where
  "example_upload_file =
     \<lparr>path = ''/a.bin'', onUploadProgress = None, file' = example_file\<rparr>"

definition example_upload_string :: StorageUploadString where
  "example_upload_string =
     \<lparr>path = ''/pixel.png'', onUploadProgress = None,
      data = ''data:image/png;base64,AAEC'', type = Some ''data_url'',
      metadata' = None\<rparr>"

text \<open>The check every upload of the facade makes on the adapter's response.\<close>

abbreviation checked :: "ApiUploadResponse \<Rightarrow> ApiUploadResponse promise" where
  "checked resp \<equiv>
     (if truthy (error resp) then resolve \<lparr>error = error resp, fileMetadata = JNull\<rparr>
      else if \<not> truthy (fileMetadata resp) then
        resolve \<lparr>error = JError ''Invalid file returned'', fileMetadata = JNull\<rparr>
      else resolve \<lparr>error = JNull, fileMetadata = fileMetadata resp\<rparr>)"

text \<open>The requests of one call of each operation of the adapter.\<close>

abbreviation adapter_requests ::
  "HasuraStorageApi \<Rightarrow> transport \<Rightarrow> FormData UploadParams \<Rightarrow> string \<Rightarrow> string \<Rightarrow> FormData
     \<Rightarrow> callback option \<Rightarrow> request list" where
  "adapter_requests this tr params fileId p formData cb \<equiv>
     snd (api_upload this tr params) @ snd (api_getPresignedUrl this tr fileId)
     @ snd (api_delete this tr fileId) @ snd (api_uploadFile this tr p formData cb)
     @ snd (api_deleteFile this tr p) @ snd (api_getMetadata this tr p)"

section \<open>Headers\<close>

lemmas promise_defs = resolve_def reject_def await_def try_catch_def
  httpClient_post_def httpClient_get_def httpClient_delete_def

lemma spread_None [simp]: "spread h None = h"
  by (simp add: spread_def)

lemma spread_single [simp]: "spread h (Some [(k, v)]) = AList.update k v h"
  by (simp add: spread_def)

lemma spread_upload_headers [simp]:
  "spread [] (Some (generateUploadHeaders params)) = generateUploadHeaders params"
  by (simp add: generateUploadHeaders_def Let_def spread_def split: option.splits)

lemma auth_lookup:
  "map_of (spread h (generateAuthHeaders this)) ''Authorization'' =
     (if truthy_string (accessToken this)
      then map_option (\<lambda>t. ''Bearer '' @ t) (accessToken this)
      else map_of h ''Authorization'')"
  by (simp add: generateAuthHeaders_def update_conv' split: option.splits)

lemma auth_keeps_others:
  "k \<noteq> ''Authorization'' \<Longrightarrow> map_of (spread h (generateAuthHeaders this)) k = map_of h k"
  by (simp add: generateAuthHeaders_def update_conv' split: option.splits)

lemma upload_headers_lookup:
  "map_of (generateUploadHeaders params) k =
     (if k = ''x-nhost-file-name'' \<and> truthy_string (name params) then name params
      else if k = ''x-nhost-file-id'' \<and> truthy_string (id' params) then id' params
      else if k = ''x-nhost-bucket-id'' \<and> truthy_string (bucketId params) then bucketId params
      else None)"
  by (simp add: generateUploadHeaders_def Let_def update_conv' split: option.splits)

section \<open>What each operation of the adapter sends and returns\<close>

text \<open>
  Every operation of the adapter hands exactly one request to the transport, and
  its result is read off the transport's answer to that request.
\<close>

lemma api_upload_eq:
  "api_upload this tr params =
     (let rq = \<lparr>req_method = POST, req_baseURL = baseURL (httpClient this),
                req_timeout = timeout (httpClient this), req_url = ''/files'',
                req_headers = spread (generateUploadHeaders params) (generateAuthHeaders this),
                req_data = Some (upload_file params), req_onUploadProgress = None\<rparr>
      in (case tr rq of
            Inl e \<Rightarrow> Inr \<lparr>error = e, fileMetadata = JNull\<rparr>
          | Inr d \<Rightarrow> Inr \<lparr>error = JNull, fileMetadata = d\<rparr>, [rq]))"
  by (simp add: api_upload_def promise_defs Let_def split: sum.splits)

lemma api_getPresignedUrl_eq:
  "api_getPresignedUrl this tr fileId =
     (let rq = \<lparr>req_method = GET, req_baseURL = baseURL (httpClient this),
                req_timeout = timeout (httpClient this),
                req_url = ''/files/'' @ fileId @ ''/presignedurl'',
                req_headers = spread [] (generateAuthHeaders this),
                req_data = None, req_onUploadProgress = None\<rparr>
      in (case tr rq of
            Inl e \<Rightarrow> Inr \<lparr>error = e, presignedUrl = JNull\<rparr>
          | Inr d \<Rightarrow> Inr \<lparr>error = JNull, presignedUrl = d\<rparr>, [rq]))"
  by (simp add: api_getPresignedUrl_def promise_defs Let_def split: sum.splits)

lemma api_delete_eq:
  "api_delete this tr fileId =
     (let rq = \<lparr>req_method = DELETE, req_baseURL = baseURL (httpClient this),
                req_timeout = timeout (httpClient this),
                req_url = ''/files/'' @ fileId,
                req_headers = spread [] (generateAuthHeaders this),
                req_data = None, req_onUploadProgress = None\<rparr>
      in (case tr rq of
            Inl e \<Rightarrow> Inr \<lparr>error = e\<rparr>
          | Inr d \<Rightarrow> Inr \<lparr>error = JNull\<rparr>, [rq]))"
  by (simp add: api_delete_def promise_defs Let_def split: sum.splits)

lemma api_uploadFile_eq:
  "api_uploadFile this tr p formData cb =
     (let rq = \<lparr>req_method = POST, req_baseURL = baseURL (httpClient this),
                req_timeout = timeout (httpClient this),
                req_url = ''/o'' @ p,
                req_headers = spread [(''Content-Type'', ''multipart/form-data'')]
                                (generateAuthHeaders this),
                req_data = Some formData, req_onUploadProgress = cb\<rparr>
      in (case tr rq of
            Inl e \<Rightarrow> Inr \<lparr>error = e, fileMetadata = JNull\<rparr>
          | Inr d \<Rightarrow> Inr \<lparr>error = JNull, fileMetadata = d\<rparr>, [rq]))"
  by (simp add: api_uploadFile_def promise_defs Let_def split: sum.splits)

lemma api_deleteFile_eq:
  "api_deleteFile this tr p =
     (let rq = \<lparr>req_method = DELETE, req_baseURL = baseURL (httpClient this),
                req_timeout = timeout (httpClient this),
                req_url = ''/o'' @ p,
                req_headers = spread [] (generateAuthHeaders this),
                req_data = None, req_onUploadProgress = None\<rparr>
      in (case tr rq of
            Inl e \<Rightarrow> Inr \<lparr>error = e\<rparr>
          | Inr d \<Rightarrow> Inr \<lparr>error = JNull\<rparr>, [rq]))"
  by (simp add: api_deleteFile_def promise_defs Let_def split: sum.splits)

lemma api_getMetadata_eq:
  "api_getMetadata this tr p =
     (let rq = \<lparr>req_method = GET, req_baseURL = baseURL (httpClient this),
                req_timeout = timeout (httpClient this),
                req_url = ''/m'' @ p,
                req_headers = spread [] (generateAuthHeaders this),
                req_data = None, req_onUploadProgress = None\<rparr>
      in (tr rq, [rq]))"
  by (simp add: api_getMetadata_def promise_defs Let_def split: sum.splits)

lemmas api_eqs = api_upload_eq api_getPresignedUrl_eq api_delete_eq api_uploadFile_eq
  api_deleteFile_eq api_getMetadata_eq

lemmas example_defs = example_client_def new_HasuraStorageClient_def
  new_HasuraStorageApi_def example_upload_def setAccessToken_def api_setAccessToken_def
  generateAuthHeaders_def generateUploadHeaders_def

section \<open>The check on the adapter's response\<close>


lemma checked_cases:
  "fst (checked resp) = Inr r \<Longrightarrow>
     (truthy (error r) \<and> fileMetadata r = JNull) \<or> (error r = JNull \<and> truthy (fileMetadata r))"
  by (auto simp add: resolve_def split: if_splits)

lemma checked_snd [simp]: "snd (checked resp) = []"
  by (simp add: resolve_def)

lemma await_Inr_fst: "fst (await (Inr v, rs) k) = fst (k v)"
  by (simp add: await_def split: prod.splits)

lemma await_Inl: "await (Inl e, rs) k = (Inl e, rs)"
  by (simp add: await_def)

lemma await_checked_cases:
  "fst (await m checked) = Inr r \<Longrightarrow>
     (truthy (error r) \<and> fileMetadata r = JNull) \<or> (error r = JNull \<and> truthy (fileMetadata r))"
proof -
  assume a: "fst (await m checked) = Inr r"
  obtain x rs where m: "m = (x, rs)" by (cases m)
  show ?thesis
  proof (cases x)
    case (Inl e)
    with a m show ?thesis by (simp add: await_Inl)
  next
    case (Inr resp)
    from a have "fst (checked resp) = Inr r"
      unfolding m Inr await_Inr_fst .
    then show ?thesis by (rule checked_cases)
  qed
qed

lemma await_api_uploadFile:
  "await (api_uploadFile a tr p fd cb) checked =
     (case fst (api_uploadFile a tr p fd cb) of
        Inl e \<Rightarrow> Inl e
      | Inr resp \<Rightarrow> fst (checked resp),
      snd (api_uploadFile a tr p fd cb))"
  by (simp add: api_uploadFile_eq Let_def await_def resolve_def split: sum.splits)

lemma await_api_upload:
  "await (api_upload a tr ps) checked =
     (case fst (api_upload a tr ps) of
        Inl e \<Rightarrow> Inl e
      | Inr resp \<Rightarrow> fst (checked resp),
      snd (api_upload a tr ps))"
  by (simp add: api_upload_eq Let_def await_def resolve_def split: sum.splits)

lemma uploadStringToStorage_outcomes:
  "(\<exists>e. fst (uploadStringToStorage u this tr params) = (Inl e, []))
   \<or> (\<exists>bits ct. fst (uploadStringToStorage u this tr params) =
         await (api_uploadFile (api this) tr (path params)
                  [(''file'', \<lparr>fileBits = bits, fileName = ''untitled'', fileType = ct\<rparr>)]
                  (onUploadProgress params)) checked)"
proof (cases "startsWith (path params) ''/''")
  case False
  then show ?thesis by (simp add: uploadStringToStorage_def reject_def)
next
  case True
  define params' where "params' =
    (if \<not> truthy_string (type params) then params\<lparr>type := Some ''raw''\<rparr> else params)"
  have pp: "path params' = path params" "onUploadProgress params' = onUploadProgress params"
    by (simp_all add: params'_def)
  show ?thesis
  proof (cases "uploadString_fileData u params'")
    case (Inl e)
    then show ?thesis
      using True unfolding uploadStringToStorage_def params'_def
      by (simp add: reject_def Let_def)
  next
    case (Inr fc)
    obtain fd ct where fc: "fc = (fd, ct)" by (cases fc)
    show ?thesis
    proof (cases fd)
      case None
      then show ?thesis
        using True Inr fc unfolding uploadStringToStorage_def params'_def
        by (simp add: reject_def Let_def)
    next
      case (Some bits)
      have "fst (uploadStringToStorage u this tr params) =
         await (api_uploadFile (api this) tr (path params)
                  [(''file'', \<lparr>fileBits = bits, fileName = ''untitled'', fileType = ct\<rparr>)]
                  (onUploadProgress params)) checked"
        using True Inr fc Some pp unfolding uploadStringToStorage_def params'_def
        by (simp add: Let_def append_def)
      then show ?thesis by blast
    qed
  qed
qed


lemma upload_await:
  "upload this tr params =
     await (api_upload (api this) tr
              \<lparr>upload_file = [(''file'', upload_file params)], bucketId = bucketId params,
               id' = id' params, name = name params\<rparr>) checked"
  by (simp add: upload_def append_def Let_def)

lemma uploadFileToStorage_await:
  "startsWith (path params) ''/'' \<Longrightarrow>
   uploadFileToStorage this tr params =
     await (api_uploadFile (api this) tr (path params) [(''file'', file' params)]
              (onUploadProgress params)) checked"
  by (simp add: uploadFileToStorage_def append_def Let_def)

lemma upload_cases:
  "fst (upload this tr params) = Inr r \<Longrightarrow>
     (truthy (error r) \<and> fileMetadata r = JNull) \<or> (error r = JNull \<and> truthy (fileMetadata r))"
  unfolding upload_await by (rule await_checked_cases)

lemma uploadFileToStorage_cases:
  assumes "fst (uploadFileToStorage this tr params) = Inr r"
  shows "(truthy (error r) \<and> fileMetadata r = JNull)
     \<or> (error r = JNull \<and> truthy (fileMetadata r))"
proof (cases "startsWith (path params) ''/''")
  case True
  from assms show ?thesis
    unfolding uploadFileToStorage_await[OF True] by (rule await_checked_cases)
next
  case False
  with assms show ?thesis by (simp add: uploadFileToStorage_def reject_def)
qed

lemma uploadStringToStorage_cases:
  assumes "fst (fst (uploadStringToStorage u this tr params)) = Inr r"
  shows "(truthy (error r) \<and> fileMetadata r = JNull)
     \<or> (error r = JNull \<and> truthy (fileMetadata r))"
proof -
  from uploadStringToStorage_outcomes[of u this tr params] assms
  obtain bits ct where "fst (uploadStringToStorage u this tr params) =
         await (api_uploadFile (api this) tr (path params)
                  [(''file'', \<lparr>fileBits = bits, fileName = ''untitled'', fileType = ct\<rparr>)]
                  (onUploadProgress params)) checked"
    by auto
  with assms show ?thesis by (simp only: await_checked_cases)
qed


lemma uploadStringToStorage_sent:
  assumes s: "snd (fst (uploadStringToStorage u this tr params)) = [rq]"
    and d: "req_data rq = Some fd"
  shows "fst (uploadStringToStorage u this tr params) =
     await (api_uploadFile (api this) tr (path params) fd (onUploadProgress params)) checked"
proof -
  from uploadStringToStorage_outcomes[of u this tr params] s
  obtain bits ct where o: "fst (uploadStringToStorage u this tr params) =
         await (api_uploadFile (api this) tr (path params)
                  [(''file'', \<lparr>fileBits = bits, fileName = ''untitled'', fileType = ct\<rparr>)]
                  (onUploadProgress params)) checked"
    by auto
  from s have "req_data rq
      = Some [(''file'', \<lparr>fileBits = bits, fileName = ''untitled'', fileType = ct\<rparr>)]"
    unfolding o await_api_uploadFile by (auto simp add: api_uploadFile_eq Let_def)
  with d have "fd = [(''file'', \<lparr>fileBits = bits, fileName = ''untitled'', fileType = ct\<rparr>)]"
    by simp
  with o show ?thesis by simp
qed

subsection \<open>The pattern of a data URL\<close>

lemma takeWhile_until: "c \<notin> set m \<Longrightarrow> takeWhile (\<lambda>x. x \<noteq> c) (m @ c # r) = m"
  by (induction m) auto

lemma dropWhile_until: "c \<notin> set m \<Longrightarrow> dropWhile (\<lambda>x. x \<noteq> c) (m @ c # r) = c # r"
  by (induction m) auto

lemma startsWith_append [simp]: "startsWith (p @ s) p"
  by (simp add: startsWith_def)

lemma match_data_url_Some:
  assumes "CHR '','' \<notin> set m"
  shows "match_data_url (''data:'' @ m @ CHR '','' # r) = Some (if m = [] then None else Some m)"
proof -
  have tw: "takeWhile (\<lambda>c. c \<noteq> CHR '','') (m @ CHR '','' # r) = m"
    using assms by (rule takeWhile_until)
  have dw: "dropWhile (\<lambda>c. c \<noteq> CHR '','') (m @ CHR '','' # r) = CHR '','' # r"
    using assms by (rule dropWhile_until)
  have sw: "startsWith (''data:'' @ m @ CHR '','' # r) ''data:''"
    by (rule startsWith_append)
  have dr: "drop 5 (''data:'' @ m @ CHR '','' # r) = m @ CHR '','' # r"
    by simp
  show ?thesis
    unfolding match_data_url_def Let_def using sw by (simp only: dr tw dw if_True list.case)
qed

lemma startsWith_data:
  "startsWith d ''data:'' \<Longrightarrow> d = ''data:'' @ drop 5 d"
proof -
  assume "startsWith d ''data:''"
  then have "take (length ''data:'') d = ''data:''" by (simp only: startsWith_def)
  moreover have "length ''data:'' = 5" by simp
  ultimately have "take 5 d = ''data:''" by (simp only:)
  then show ?thesis using append_take_drop_id[of 5 d] by simp
qed

lemma match_data_url_matches:
  "match_data_url (''data:'' @ m @ CHR '','' # r) \<noteq> None"
proof -
  have "CHR '','' \<in> set (m @ CHR '','' # r)" by simp
  then obtain m1 r1 where e: "m @ CHR '','' # r = m1 @ CHR '','' # r1"
    and nm: "CHR '','' \<notin> set m1"
    by (meson split_list_first)
  have "match_data_url (''data:'' @ m1 @ CHR '','' # r1) \<noteq> None"
    by (simp only: match_data_url_Some[OF nm] option.distinct not_False_eq_True)
  then show ?thesis unfolding e .
qed

lemma match_data_url_None_iff:
  "match_data_url d = None \<longleftrightarrow> \<not> (\<exists>m r. d = ''data:'' @ m @ CHR '','' # r)"
proof
  assume n: "match_data_url d = None"
  show "\<not> (\<exists>m r. d = ''data:'' @ m @ CHR '','' # r)"
  proof
    assume "\<exists>m r. d = ''data:'' @ m @ CHR '','' # r"
    then obtain m r where d: "d = ''data:'' @ m @ CHR '','' # r" by blast
    from n have "match_data_url (''data:'' @ m @ CHR '','' # r) = None"
      by (simp only: d)
    with match_data_url_matches show False by blast
  qed
next
  assume h: "\<not> (\<exists>m r. d = ''data:'' @ m @ CHR '','' # r)"
  show "match_data_url d = None"
  proof (cases "startsWith d ''data:''")
    case False
    then show ?thesis by (simp add: match_data_url_def)
  next
    case True
    then have d: "d = ''data:'' @ drop 5 d" by (rule startsWith_data)
    have "CHR '','' \<notin> set (drop 5 d)"
    proof
      assume "CHR '','' \<in> set (drop 5 d)"
      then obtain m r where mr: "drop 5 d = m @ CHR '','' # r"
        by (meson split_list)
      have "d = ''data:'' @ m @ CHR '','' # r"
        by (rule trans[OF d]) (simp only: mr)
      with h show False by blast
    qed
    then have dw: "dropWhile (\<lambda>c. c \<noteq> CHR '','') (drop 5 d) = []"
      by (auto simp add: dropWhile_eq_Nil_conv)
    show ?thesis unfolding match_data_url_def Let_def dw by simp
  qed
qed

lemma rest_after_first:
  assumes "c \<notin> set xs"
  shows "substring_from (xs @ c # ys) (indexOf (xs @ c # ys) c + 1) = ys"
proof -
  have tw: "takeWhile (\<lambda>x. x \<noteq> c) (xs @ c # ys) = xs"
    using assms by (rule takeWhile_until)
  have ix: "indexOf (xs @ c # ys) c = int (length xs)"
    unfolding indexOf_def tw by simp
  have "nat (int (length xs) + 1) = Suc (length xs)" by simp
  then show ?thesis
    unfolding substring_from_def ix by simp
qed

lemma data_url_rest:
  assumes "CHR '','' \<notin> set header"
  shows "substring_from (''data:'' @ header @ CHR '','' # payload)
           (indexOf (''data:'' @ header @ CHR '','' # payload) CHR '','' + 1) = payload"
proof -
  have n: "CHR '','' \<notin> set (''data:'' @ header)" using assms by simp
  show ?thesis using rest_after_first[OF n, of payload] by simp
qed

lemma uploadString_fileData_data_url:
  assumes t: "type params = Some ''data_url''"
    and d: "data params = ''data:'' @ header @ CHR '','' # payload"
    and h: "CHR '','' \<notin> set header"
  shows "uploadString_fileData u params =
    (case (if endsWith header '';base64'' then base64Bytes u BASE64 payload
           else percentEncodedBytes u payload) of
       Inl e \<Rightarrow> Inl e
     | Inr bs \<Rightarrow>
         Inr (Some bs,
              if header = [] then None
              else if endsWith header '';base64''
              then Some (take (length header - 7) header)
              else Some header))"
proof -
  have m: "match_data_url (data params) = Some (if header = [] then None else Some header)"
    unfolding d using h by (rule match_data_url_Some)
  have r: "substring_from (data params) (indexOf (data params) CHR '','' + 1) = payload"
    unfolding d using h by (rule data_url_rest)
  have e: "\<not> endsWith [] '';base64''" by (simp add: endsWith_def)
  have k: "nat (int (length header) - 7) = length header - 7"
    by arith
  show ?thesis
    unfolding uploadString_fileData_def
    using t e
    by (simp add: m r k Let_def substring_to_def del: of_nat_diff split: sum.splits)
qed

lemma uploadStringToStorage_data_url:
  assumes p: "startsWith (path params) ''/''"
    and t: "type params = Some ''data_url''"
    and d: "data params = ''data:'' @ header @ CHR '','' # payload"
    and h: "CHR '','' \<notin> set header"
  shows "uploadStringToStorage u this tr params =
    (case (if endsWith header '';base64'' then base64Bytes u BASE64 payload
           else percentEncodedBytes u payload) of
       Inl e \<Rightarrow> (reject e, params)
     | Inr bs \<Rightarrow>
        (await
           (api_uploadFile (api this) tr (path params)
              [(''file'', \<lparr>fileBits = bs, fileName = ''untitled'',
                  fileType = (if header = [] then None
                              else if endsWith header '';base64''
                              then Some (take (length header - 7) header)
                              else Some header)\<rparr>)]
              (onUploadProgress params)) checked,
         params))"
proof -
  have ts: "truthy_string (type params)" by (simp add: t)
  show ?thesis
    unfolding uploadStringToStorage_def
    using p ts
    by (simp add: uploadString_fileData_data_url[OF t d h] Let_def append_def
          split: sum.splits)
qed

lemma base64_endsWith_nonempty: "endsWith header '';base64'' \<Longrightarrow> header \<noteq> []"
  by (auto simp add: endsWith_def)

lemma data_url_request:
  assumes a: "startsWith (path params) ''/''" "type params = Some ''data_url''"
      "data params = ''data:'' @ header @ CHR '','' # payload" "CHR '','' \<notin> set header"
    and dec: "(if endsWith header '';base64'' then base64Bytes u BASE64 payload
           else percentEncodedBytes u payload) = Inr bs"
  shows "\<exists>rq. snd (fst (uploadStringToStorage u this tr params)) = [rq]
            \<and> req_method rq = POST \<and> req_url rq = ''/o'' @ path params
            \<and> req_data rq =
                Some [(''file'',
                  \<lparr>fileBits = bs, fileName = ''untitled'',
                   fileType = (if header = [] then None
                              else if endsWith header '';base64''
                              then Some (take (length header - 7) header)
                              else Some header)\<rparr>)]"
  unfolding uploadStringToStorage_data_url[OF a] dec
  by (simp add: api_uploadFile_eq promise_defs Let_def split: sum.splits)

lemma data_url_throws:
  assumes a: "startsWith (path params) ''/''" "type params = Some ''data_url''"
      "data params = ''data:'' @ header @ CHR '','' # payload" "CHR '','' \<notin> set header"
    and dec: "(if endsWith header '';base64'' then base64Bytes u BASE64 payload
           else percentEncodedBytes u payload) = Inl e"
  shows "fst (uploadStringToStorage u this tr params) = (Inl e, [])"
  unfolding uploadStringToStorage_data_url[OF a] dec
  by (simp add: reject_def)

lemma uploadStringToStorage_no_match:
  assumes t: "type params = Some ''data_url''" and m: "match_data_url (data params) = None"
  shows "fst (uploadStringToStorage u this tr params) =
     (if startsWith (path params) ''/''
      then (Inl (JStr ''Data must be formatted 'data:[<mediatype>][;base64],<data>''), [])
      else (Inl (JError ''`path` must start with `/`''), []))"
  unfolding uploadStringToStorage_def uploadString_fileData_def
  by (simp add: t m reject_def Let_def)

lemma uploadStringToStorage_params:
  "snd (uploadStringToStorage u this tr params) =
      (if startsWith (path params) ''/'' \<and> \<not> truthy_string (type params)
       then params\<lparr>type := Some ''raw''\<rparr> else params)"
  unfolding uploadStringToStorage_def
  by (simp add: Let_def split: sum.splits option.splits prod.splits)

lemma checked_empty:
  "error resp = JNull \<Longrightarrow> \<not> truthy (fileMetadata resp) \<Longrightarrow>
   fst (checked resp) = Inr \<lparr>error = JError ''Invalid file returned'', fileMetadata = JNull\<rparr>"
  by (simp add: resolve_def)

lemma await_checked_empty:
  assumes "fst m = Inr resp" "error resp = JNull" "\<not> truthy (fileMetadata resp)"
  shows "fst (await m checked)
    = Inr \<lparr>error = JError ''Invalid file returned'', fileMetadata = JNull\<rparr>"
proof -
  obtain rs where m: "m = (Inr resp, rs)" using assms(1) by (cases m) simp
  show ?thesis unfolding m await_Inr_fst using assms(2,3) by (rule checked_empty)
qed

section \<open>The metadata of a path\<close>





section \<open>The claims\<close>

text \<open>
  C1, as amended. For a path that does not start with \<^verbatim>\<open>/\<close> none of the three
  path-addressed operations sends a request: \<^verbatim>\<open>deleteFile\<close> and \<^verbatim>\<open>getS3Metadata\<close>
  return the validation fault as the error of their result, while
  \<^verbatim>\<open>uploadFileToStorage\<close> throws it (its promise rejects with the \<^verbatim>\<open>Error\<close>). For
  a path that starts with \<^verbatim>\<open>/\<close> each of the three sends exactly the one request
  of the adapter operation it delegates to.
\<close>

theorem path_validation:
  "(\<not> startsWith p ''/'' \<longrightarrow>
      uploadFileToStorage this tr \<lparr>path = p, onUploadProgress = cb, file' = f\<rparr>
        = (Inl (JError ''`path` must start with `/`''), [])
      \<and> deleteFile this tr p = (Inr \<lparr>error = JError ''`path` must start with `/`''\<rparr>, [])
      \<and> getS3Metadata this tr p
        = (Inr \<lparr>error = JError ''`path` must start with `/`'', metadata = JNull\<rparr>, []))
   \<and> (startsWith p ''/'' \<longrightarrow>
      snd (uploadFileToStorage this tr \<lparr>path = p, onUploadProgress = cb, file' = f\<rparr>)
        = snd (api_uploadFile (api this) tr p [(''file'', f)] cb)
      \<and> snd (deleteFile this tr p) = snd (api_deleteFile (api this) tr p)
      \<and> snd (getS3Metadata this tr p) = snd (api_getMetadata (api this) tr p)
      \<and> length (snd (uploadFileToStorage this tr
                       \<lparr>path = p, onUploadProgress = cb, file' = f\<rparr>)) = 1
      \<and> length (snd (deleteFile this tr p)) = 1
      \<and> length (snd (getS3Metadata this tr p)) = 1)"
  by (simp add: uploadFileToStorage_def deleteFile_def getS3Metadata_def append_def
        api_eqs promise_defs Let_def split: sum.splits)

text \<open>The two cases at the paths \<^verbatim>\<open>a.bin\<close> and \<^verbatim>\<open>/a.bin\<close>.\<close>

theorem path_validation_witness:
  "\<not> startsWith ''a.bin'' ''/''
   \<and> deleteFile example_client transport_ok ''a.bin''
       = (Inr \<lparr>error = JError ''`path` must start with `/`''\<rparr>, [])
   \<and> getS3Metadata example_client transport_ok ''a.bin''
       = (Inr \<lparr>error = JError ''`path` must start with `/`'', metadata = JNull\<rparr>, [])
   \<and> startsWith ''/a.bin'' ''/''
   \<and> snd (deleteFile example_client transport_ok ''/a.bin'')
       = [\<lparr>req_method = DELETE, req_baseURL = ''https://storage.example'',
           req_timeout = 10000, req_url = ''/o/a.bin'', req_headers = [],
           req_data = None, req_onUploadProgress = None\<rparr>]
   \<and> snd (getS3Metadata example_client transport_ok ''/a.bin'')
       = [\<lparr>req_method = GET, req_baseURL = ''https://storage.example'',
           req_timeout = 10000, req_url = ''/m/a.bin'', req_headers = [],
           req_data = None, req_onUploadProgress = None\<rparr>]
   \<and> snd (uploadFileToStorage example_client transport_ok example_upload_file)
       = [\<lparr>req_method = POST, req_baseURL = ''https://storage.example'',
           req_timeout = 10000, req_url = ''/o/a.bin'',
           req_headers = [(''Content-Type'', ''multipart/form-data'')],
           req_data = Some [(''file'', example_file)], req_onUploadProgress = None\<rparr>]"
  using path_validation [of "''a.bin''" example_client transport_ok None example_file]
    path_validation [of "''/a.bin''" example_client transport_ok None example_file]
  by (simp add: startsWith_def api_eqs Let_def example_defs example_upload_file_def)

text \<open>
  As stated the claim fails: at the path \<^verbatim>\<open>a.bin\<close> the upload does not return a
  fault value, it rejects.
\<close>

theorem path_validation_counterexample:
  "uploadFileToStorage example_client transport_ok
     \<lparr>path = ''a.bin'', onUploadProgress = None, file' = example_file\<rparr>
   = (Inl (JError ''`path` must start with `/`''), [])"
  by (simp add: uploadFileToStorage_def startsWith_def promise_defs)

text \<open>
  C2. In each of the three uploads of the facade, when the call of the adapter
  returns a result whose error is null and whose file metadata is null or
  otherwise empty (falsy), the facade returns a null value and the fault
  \<^verbatim>\<open>Invalid file returned\<close>. For \<^verbatim>\<open>uploadStringToStorage\<close> the call of the adapter
  is the one whose form data is the body of the request that was sent. No
  result of the three has both its value and its error null.
\<close>

theorem invalid_file_returned:
  "(fst (api_upload (api this) tr
           \<lparr>upload_file = [(''file'', upload_file params)], bucketId = bucketId params,
            id' = id' params, name = name params\<rparr>) = Inr resp1
      \<and> error resp1 = JNull \<and> \<not> truthy (fileMetadata resp1) \<longrightarrow>
      fst (upload this tr params)
        = Inr \<lparr>error = JError ''Invalid file returned'', fileMetadata = JNull\<rparr>)
   \<and> (startsWith (path fparams) ''/''
      \<and> fst (api_uploadFile (api this) tr (path fparams) [(''file'', file' fparams)]
              (onUploadProgress fparams)) = Inr resp2
      \<and> error resp2 = JNull \<and> \<not> truthy (fileMetadata resp2) \<longrightarrow>
      fst (uploadFileToStorage this tr fparams)
        = Inr \<lparr>error = JError ''Invalid file returned'', fileMetadata = JNull\<rparr>)
   \<and> (snd (fst (uploadStringToStorage u this tr sparams)) = [rq] \<and> req_data rq = Some fd
      \<and> fst (api_uploadFile (api this) tr (path sparams) fd (onUploadProgress sparams))
          = Inr resp3
      \<and> error resp3 = JNull \<and> \<not> truthy (fileMetadata resp3) \<longrightarrow>
      fst (fst (uploadStringToStorage u this tr sparams))
        = Inr \<lparr>error = JError ''Invalid file returned'', fileMetadata = JNull\<rparr>)
   \<and> (fst (upload this tr params) = Inr r1 \<longrightarrow>
        \<not> (fileMetadata r1 = JNull \<and> error r1 = JNull))
   \<and> (fst (uploadFileToStorage this tr fparams) = Inr r2 \<longrightarrow>
        \<not> (fileMetadata r2 = JNull \<and> error r2 = JNull))
   \<and> (fst (fst (uploadStringToStorage u this tr sparams)) = Inr r3 \<longrightarrow>
        \<not> (fileMetadata r3 = JNull \<and> error r3 = JNull))"
proof -
  have a: "fst (api_upload (api this) tr
           \<lparr>upload_file = [(''file'', upload_file params)], bucketId = bucketId params,
            id' = id' params, name = name params\<rparr>) = Inr resp1
      \<and> error resp1 = JNull \<and> \<not> truthy (fileMetadata resp1) \<longrightarrow>
      fst (upload this tr params)
        = Inr \<lparr>error = JError ''Invalid file returned'', fileMetadata = JNull\<rparr>"
    unfolding upload_await by (intro impI, elim conjE) (rule await_checked_empty)
  have b: "startsWith (path fparams) ''/''
      \<and> fst (api_uploadFile (api this) tr (path fparams) [(''file'', file' fparams)]
              (onUploadProgress fparams)) = Inr resp2
      \<and> error resp2 = JNull \<and> \<not> truthy (fileMetadata resp2) \<longrightarrow>
      fst (uploadFileToStorage this tr fparams)
        = Inr \<lparr>error = JError ''Invalid file returned'', fileMetadata = JNull\<rparr>"
  proof (intro impI, elim conjE)
    assume p: "startsWith (path fparams) ''/''"
      and r: "fst (api_uploadFile (api this) tr (path fparams) [(''file'', file' fparams)]
              (onUploadProgress fparams)) = Inr resp2"
        "error resp2 = JNull" "\<not> truthy (fileMetadata resp2)"
    show "fst (uploadFileToStorage this tr fparams)
        = Inr \<lparr>error = JError ''Invalid file returned'', fileMetadata = JNull\<rparr>"
      unfolding uploadFileToStorage_await[OF p] using r by (rule await_checked_empty)
  qed
  have c: "snd (fst (uploadStringToStorage u this tr sparams)) = [rq] \<and> req_data rq = Some fd
      \<and> fst (api_uploadFile (api this) tr (path sparams) fd (onUploadProgress sparams))
          = Inr resp3
      \<and> error resp3 = JNull \<and> \<not> truthy (fileMetadata resp3) \<longrightarrow>
      fst (fst (uploadStringToStorage u this tr sparams))
        = Inr \<lparr>error = JError ''Invalid file returned'', fileMetadata = JNull\<rparr>"
  proof (intro impI, elim conjE)
    assume s: "snd (fst (uploadStringToStorage u this tr sparams)) = [rq]"
      "req_data rq = Some fd"
      and r: "fst (api_uploadFile (api this) tr (path sparams) fd (onUploadProgress sparams))
          = Inr resp3" "error resp3 = JNull" "\<not> truthy (fileMetadata resp3)"
    show "fst (fst (uploadStringToStorage u this tr sparams))
        = Inr \<lparr>error = JError ''Invalid file returned'', fileMetadata = JNull\<rparr>"
      unfolding uploadStringToStorage_sent[OF s] using r by (rule await_checked_empty)
  qed
  have d: "fst (upload this tr params) = Inr r1 \<longrightarrow>
        \<not> (fileMetadata r1 = JNull \<and> error r1 = JNull)"
    using upload_cases[of this tr params r1] by auto
  have e: "fst (uploadFileToStorage this tr fparams) = Inr r2 \<longrightarrow>
        \<not> (fileMetadata r2 = JNull \<and> error r2 = JNull)"
    using uploadFileToStorage_cases[of this tr fparams r2] by auto
  have f: "fst (fst (uploadStringToStorage u this tr sparams)) = Inr r3 \<longrightarrow>
        \<not> (fileMetadata r3 = JNull \<and> error r3 = JNull)"
    using uploadStringToStorage_cases[of u this tr sparams r3] by auto
  show ?thesis
    by (rule conjI[OF a conjI[OF b conjI[OF c conjI[OF d conjI[OF e f]]]]])
qed

text \<open>The three uploads against a server that answers with a null body.\<close>

theorem invalid_file_returned_witness:
  "fst (api_upload (api example_client) transport_null_body
         \<lparr>upload_file = [(''file'', upload_file example_storage_upload)],
          bucketId = bucketId example_storage_upload, id' = id' example_storage_upload,
          name = name example_storage_upload\<rparr>)
     = Inr \<lparr>error = JNull, fileMetadata = JNull\<rparr>
   \<and> fst (upload example_client transport_null_body example_storage_upload)
     = Inr \<lparr>error = JError ''Invalid file returned'', fileMetadata = JNull\<rparr>
   \<and> startsWith (path example_upload_file) ''/''
   \<and> fst (api_uploadFile (api example_client) transport_null_body (path example_upload_file)
            [(''file'', file' example_upload_file)] (onUploadProgress example_upload_file))
     = Inr \<lparr>error = JNull, fileMetadata = JNull\<rparr>
   \<and> fst (uploadFileToStorage example_client transport_null_body example_upload_file)
     = Inr \<lparr>error = JError ''Invalid file returned'', fileMetadata = JNull\<rparr>
   \<and> snd (fst (uploadStringToStorage spec_utils example_client transport_null_body
                example_upload_string))
     = [\<lparr>req_method = POST, req_baseURL = ''https://storage.example'', req_timeout = 10000,
         req_url = ''/o/pixel.png'',
         req_headers = [(''Content-Type'', ''multipart/form-data'')],
         req_data = Some [(''file'', \<lparr>fileBits = [0, 1, 2], fileName = ''untitled'',
                                       fileType = Some ''image/png''\<rparr>)],
         req_onUploadProgress = None\<rparr>]
   \<and> fst (fst (uploadStringToStorage spec_utils example_client transport_null_body
                example_upload_string))
     = Inr \<lparr>error = JError ''Invalid file returned'', fileMetadata = JNull\<rparr>
   \<and> \<not> (fileMetadata \<lparr>error = JError ''Invalid file returned'', fileMetadata = JNull\<rparr> = JNull
        \<and> error \<lparr>error = JError ''Invalid file returned'', fileMetadata = JNull\<rparr> = JNull)"
proof -
  let ?empty = "\<lparr>error = JNull, fileMetadata = JNull\<rparr>"
  let ?fault = "\<lparr>error = JError ''Invalid file returned'', fileMetadata = JNull\<rparr>"
  let ?fd = "[(''file'', \<lparr>fileBits = [0, 1, 2], fileName = ''untitled'',
                          fileType = Some ''image/png''\<rparr>)]"
  let ?rq = "\<lparr>req_method = POST, req_baseURL = ''https://storage.example'',
         req_timeout = 10000, req_url = ''/o/pixel.png'',
         req_headers = [(''Content-Type'', ''multipart/form-data'')],
         req_data = Some ?fd, req_onUploadProgress = None\<rparr>"
  note inst = invalid_file_returned
    [of example_client transport_null_body example_storage_upload ?empty
        example_upload_file ?empty spec_utils example_upload_string ?rq ?fd ?empty
        ?fault ?fault ?fault]
  have e: "error ?empty = JNull" "\<not> truthy (fileMetadata ?empty)" by simp_all
  have h1: "fst (api_upload (api example_client) transport_null_body
         \<lparr>upload_file = [(''file'', upload_file example_storage_upload)],
          bucketId = bucketId example_storage_upload, id' = id' example_storage_upload,
          name = name example_storage_upload\<rparr>) = Inr ?empty"
    by code_simp
  from inst[THEN conjunct1] conjI[OF h1 conjI[OF e]]
  have c1: "fst (upload example_client transport_null_body example_storage_upload)
     = Inr ?fault"
    by (rule mp)
  have h2: "startsWith (path example_upload_file) ''/''" by code_simp
  have h3: "fst (api_uploadFile (api example_client) transport_null_body
            (path example_upload_file) [(''file'', file' example_upload_file)]
            (onUploadProgress example_upload_file)) = Inr ?empty"
    by code_simp
  from inst[THEN conjunct2, THEN conjunct1] conjI[OF h2 conjI[OF h3 conjI[OF e]]]
  have c2: "fst (uploadFileToStorage example_client transport_null_body example_upload_file)
     = Inr ?fault"
    by (rule mp)
  have h4: "snd (fst (uploadStringToStorage spec_utils example_client transport_null_body
                example_upload_string)) = [?rq]"
    by code_simp
  have h5: "req_data ?rq = Some ?fd" by simp
  have h6: "fst (api_uploadFile (api example_client) transport_null_body
            (path example_upload_string) ?fd (onUploadProgress example_upload_string))
     = Inr ?empty"
    by code_simp
  from inst[THEN conjunct2, THEN conjunct2, THEN conjunct1]
    conjI[OF h4 conjI[OF h5 conjI[OF h6 conjI[OF e]]]]
  have c3: "fst (fst (uploadStringToStorage spec_utils example_client transport_null_body
                example_upload_string)) = Inr ?fault"
    by (rule mp)
  from inst[THEN conjunct2, THEN conjunct2, THEN conjunct2, THEN conjunct1] c1
  have c4: "\<not> (fileMetadata ?fault = JNull \<and> error ?fault = JNull)"
    by (rule mp)
  show ?thesis
    by (rule conjI[OF h1 conjI[OF c1 conjI[OF h2 conjI[OF h3 conjI[OF c2
          conjI[OF h4 conjI[OF c3 c4]]]]]]])
qed

text \<open>
  C3. When the transport raises \<open>e\<close> on the request an operation sends:
  \<^verbatim>\<open>upload\<close>, \<^verbatim>\<open>getPresignedUrl\<close>, \<^verbatim>\<open>delete\<close>, \<^verbatim>\<open>uploadFile\<close> and \<^verbatim>\<open>deleteFile\<close> of
  the adapter return the pair with a null value and \<open>e\<close> as the error, while
  \<^verbatim>\<open>getMetadata\<close> rejects with \<open>e\<close>. The first five return under every
  transport: they never raise.
\<close>

theorem adapter_catches:
  "((\<forall>rq \<in> set (snd (api_upload this tr params)). tr rq = Inl e) \<longrightarrow>
      fst (api_upload this tr params) = Inr \<lparr>error = e, fileMetadata = JNull\<rparr>)
   \<and> ((\<forall>rq \<in> set (snd (api_getPresignedUrl this tr fileId)). tr rq = Inl e) \<longrightarrow>
      fst (api_getPresignedUrl this tr fileId) = Inr \<lparr>error = e, presignedUrl = JNull\<rparr>)
   \<and> ((\<forall>rq \<in> set (snd (api_delete this tr fileId)). tr rq = Inl e) \<longrightarrow>
      fst (api_delete this tr fileId) = Inr \<lparr>error = e\<rparr>)
   \<and> ((\<forall>rq \<in> set (snd (api_uploadFile this tr p formData cb)). tr rq = Inl e) \<longrightarrow>
      fst (api_uploadFile this tr p formData cb) = Inr \<lparr>error = e, fileMetadata = JNull\<rparr>)
   \<and> ((\<forall>rq \<in> set (snd (api_deleteFile this tr p)). tr rq = Inl e) \<longrightarrow>
      fst (api_deleteFile this tr p) = Inr \<lparr>error = e\<rparr>)
   \<and> ((\<forall>rq \<in> set (snd (api_getMetadata this tr p)). tr rq = Inl e) \<longrightarrow>
      fst (api_getMetadata this tr p) = Inl e)
   \<and> (\<exists>r. fst (api_upload this tr params) = Inr r)
   \<and> (\<exists>r. fst (api_getPresignedUrl this tr fileId) = Inr r)
   \<and> (\<exists>r. fst (api_delete this tr fileId) = Inr r)
   \<and> (\<exists>r. fst (api_uploadFile this tr p formData cb) = Inr r)
   \<and> (\<exists>r. fst (api_deleteFile this tr p) = Inr r)"
  by (simp add: api_eqs Let_def split: sum.splits)

text \<open>A network that fails every request.\<close>

theorem adapter_catches_witness:
  "snd (api_upload (api example_client) transport_down example_upload)
     = [\<lparr>req_method = POST, req_baseURL = ''https://storage.example'', req_timeout = 10000,
         req_url = ''/files'',
         req_headers = [(''x-nhost-bucket-id'', ''b1''), (''x-nhost-file-name'', ''a.bin'')],
         req_data = Some [(''file'', example_file)], req_onUploadProgress = None\<rparr>]
   \<and> fst (api_upload (api example_client) transport_down example_upload)
     = Inr \<lparr>error = JError ''Network Error'', fileMetadata = JNull\<rparr>
   \<and> fst (api_getPresignedUrl (api example_client) transport_down ''f1'')
     = Inr \<lparr>error = JError ''Network Error'', presignedUrl = JNull\<rparr>
   \<and> fst (api_delete (api example_client) transport_down ''f1'')
     = Inr \<lparr>error = JError ''Network Error''\<rparr>
   \<and> fst (api_uploadFile (api example_client) transport_down ''/a.bin''
            [(''file'', example_file)] None)
     = Inr \<lparr>error = JError ''Network Error'', fileMetadata = JNull\<rparr>
   \<and> fst (api_deleteFile (api example_client) transport_down ''/a.bin'')
     = Inr \<lparr>error = JError ''Network Error''\<rparr>
   \<and> fst (api_getMetadata (api example_client) transport_down ''/a.bin'')
     = Inl (JError ''Network Error'')"
  using adapter_catches
    [of "api example_client" transport_down example_upload "JError ''Network Error''"
        "''f1''" "''/a.bin''" "[(''file'', example_file)]" None]
  by (simp add: api_eqs Let_def example_defs transport_down_def)




text \<open>
  C5. For a data URL, that is \<^verbatim>\<open>data:\<close>, a header segment without a comma, a
  comma and a payload, uploaded to a path that starts with \<^verbatim>\<open>/\<close>: when the header
  ends with \<^verbatim>\<open>;base64\<close> the payload is base64-decoded and the content type is the
  header without that suffix; otherwise the payload is percent-decoded and the
  content type is the header as it is (none when the header is empty). The
  decoded bytes go out as the file \<^verbatim>\<open>untitled\<close> of the one request, and a decoder
  that throws ends the upload with no request. This holds for every decoder.
  With the decoders modelled from the spec, \<^verbatim>\<open>data:text/plain;base64,SGVsbG8=\<close>
  gives the bytes of \<^verbatim>\<open>Hello\<close> and \<^verbatim>\<open>data:text/plain,Hello%20World\<close> the bytes of
  \<^verbatim>\<open>Hello World\<close>, both with content type \<^verbatim>\<open>text/plain\<close>.
\<close>

theorem data_url_decoding:
  "(startsWith (path params) ''/'' \<and> type params = Some ''data_url''
      \<and> data params = ''data:'' @ header @ CHR '','' # payload
      \<and> CHR '','' \<notin> set header \<longrightarrow>
      (case (if endsWith header '';base64'' then base64Bytes u BASE64 payload
             else percentEncodedBytes u payload) of
         Inl e \<Rightarrow> fst (uploadStringToStorage u this tr params) = (Inl e, [])
       | Inr bs \<Rightarrow>
           (\<exists>rq. snd (fst (uploadStringToStorage u this tr params)) = [rq]
              \<and> req_method rq = POST \<and> req_url rq = ''/o'' @ path params
              \<and> req_data rq =
                  Some [(''file'',
                    \<lparr>fileBits = bs, fileName = ''untitled'',
                     fileType =
                       (if header = [] then None
                        else if endsWith header '';base64''
                        then Some (take (length header - length '';base64'') header)
                        else Some header)\<rparr>)])))
   \<and> map req_data (snd (fst (uploadStringToStorage spec_utils example_client transport_ok
          \<lparr>path = ''/hello.txt'', onUploadProgress = None,
           data = ''data:text/plain;base64,SGVsbG8='', type = Some ''data_url'',
           metadata' = None\<rparr>)))
       = [Some [(''file'',
            \<lparr>fileBits = map of_char ''Hello'', fileName = ''untitled'',
             fileType = Some ''text/plain''\<rparr>)]]
   \<and> map req_data (snd (fst (uploadStringToStorage spec_utils example_client transport_ok
          \<lparr>path = ''/hello.txt'', onUploadProgress = None,
           data = ''data:text/plain,Hello%20World'', type = Some ''data_url'',
           metadata' = None\<rparr>)))
       = [Some [(''file'',
            \<lparr>fileBits = map of_char ''Hello World'', fileName = ''untitled'',
             fileType = Some ''text/plain''\<rparr>)]]"
proof -
  have g: "startsWith (path params) ''/'' \<and> type params = Some ''data_url''
      \<and> data params = ''data:'' @ header @ CHR '','' # payload
      \<and> CHR '','' \<notin> set header \<longrightarrow>
      (case (if endsWith header '';base64'' then base64Bytes u BASE64 payload
             else percentEncodedBytes u payload) of
         Inl e \<Rightarrow> fst (uploadStringToStorage u this tr params) = (Inl e, [])
       | Inr bs \<Rightarrow>
           (\<exists>rq. snd (fst (uploadStringToStorage u this tr params)) = [rq]
              \<and> req_method rq = POST \<and> req_url rq = ''/o'' @ path params
              \<and> req_data rq =
                  Some [(''file'',
                    \<lparr>fileBits = bs, fileName = ''untitled'',
                     fileType =
                       (if header = [] then None
                        else if endsWith header '';base64''
                        then Some (take (length header - length '';base64'') header)
                        else Some header)\<rparr>)]))"
  proof (intro impI, elim conjE)
    assume a: "startsWith (path params) ''/''" "type params = Some ''data_url''"
      "data params = ''data:'' @ header @ CHR '','' # payload" "CHR '','' \<notin> set header"
    have l: "length '';base64'' = 7" by simp
    show "case (if endsWith header '';base64'' then base64Bytes u BASE64 payload
             else percentEncodedBytes u payload) of
         Inl e \<Rightarrow> fst (uploadStringToStorage u this tr params) = (Inl e, [])
       | Inr bs \<Rightarrow>
           (\<exists>rq. snd (fst (uploadStringToStorage u this tr params)) = [rq]
              \<and> req_method rq = POST \<and> req_url rq = ''/o'' @ path params
              \<and> req_data rq =
                  Some [(''file'',
                    \<lparr>fileBits = bs, fileName = ''untitled'',
                     fileType =
                       (if header = [] then None
                        else if endsWith header '';base64''
                        then Some (take (length header - length '';base64'') header)
                        else Some header)\<rparr>)])"
    proof (cases "if endsWith header '';base64'' then base64Bytes u BASE64 payload
             else percentEncodedBytes u payload")
      case (Inl e)
      show ?thesis
        unfolding Inl sum.case by (rule data_url_throws[OF a Inl])
    next
      case (Inr bs)
      show ?thesis
        unfolding Inr sum.case l by (rule data_url_request[OF a Inr])
    qed
  qed
  have ex1: "map req_data (snd (fst (uploadStringToStorage spec_utils example_client
          transport_ok
          \<lparr>path = ''/hello.txt'', onUploadProgress = None,
           data = ''data:text/plain;base64,SGVsbG8='', type = Some ''data_url'',
           metadata' = None\<rparr>)))
       = [Some [(''file'',
            \<lparr>fileBits = map of_char ''Hello'', fileName = ''untitled'',
             fileType = Some ''text/plain''\<rparr>)]]"
    by code_simp
  have ex2: "map req_data (snd (fst (uploadStringToStorage spec_utils example_client
          transport_ok
          \<lparr>path = ''/hello.txt'', onUploadProgress = None,
           data = ''data:text/plain,Hello%20World'', type = Some ''data_url'',
           metadata' = None\<rparr>)))
       = [Some [(''file'',
            \<lparr>fileBits = map of_char ''Hello World'', fileName = ''untitled'',
             fileType = Some ''text/plain''\<rparr>)]]"
    by code_simp
  show ?thesis by (rule conjI[OF g conjI[OF ex1 ex2]])
qed

text \<open>The data URL of a three-byte file.\<close>

theorem data_url_decoding_witness:
  "startsWith (path example_upload_string) ''/''
   \<and> type example_upload_string = Some ''data_url''
   \<and> data example_upload_string = ''data:'' @ ''image/png;base64'' @ CHR '','' # ''AAEC''
   \<and> CHR '','' \<notin> set ''image/png;base64''
   \<and> base64Bytes spec_utils BASE64 ''AAEC'' = Inr [0, 1, 2]
   \<and> (\<exists>rq. snd (fst (uploadStringToStorage spec_utils example_client transport_ok
                example_upload_string)) = [rq]
          \<and> req_method rq = POST \<and> req_url rq = ''/o/pixel.png''
          \<and> req_data rq =
              Some [(''file'',
                \<lparr>fileBits = [0, 1, 2], fileName = ''untitled'',
                 fileType = Some ''image/png''\<rparr>)])"
proof -
  have h1: "startsWith (path example_upload_string) ''/''"
    by (simp add: example_upload_string_def startsWith_def)
  have h2: "type example_upload_string = Some ''data_url''"
    by (simp add: example_upload_string_def)
  have h3: "data example_upload_string = ''data:'' @ ''image/png;base64'' @ CHR '','' # ''AAEC''"
    by (simp add: example_upload_string_def)
  have h4: "CHR '','' \<notin> set ''image/png;base64''" by simp
  have h5: "base64Bytes spec_utils BASE64 ''AAEC'' = Inr [0, 1, 2]" by code_simp
  have e: "endsWith ''image/png;base64'' '';base64''" by (simp add: endsWith_def)
  have p: "path example_upload_string = ''/pixel.png''"
    by (simp add: example_upload_string_def)
  have c: "\<exists>rq. snd (fst (uploadStringToStorage spec_utils example_client transport_ok
                example_upload_string)) = [rq]
          \<and> req_method rq = POST \<and> req_url rq = ''/o/pixel.png''
          \<and> req_data rq =
              Some [(''file'',
                \<lparr>fileBits = [0, 1, 2], fileName = ''untitled'',
                 fileType = Some ''image/png''\<rparr>)]"
    using data_url_decoding
      [of example_upload_string "''image/png;base64''" "''AAEC''" spec_utils
          example_client transport_ok]
      h1 h2 h3 h4
    by (simp add: e h5 p)
  from h1 h2 h3 h4 h5 c show ?thesis by (intro conjI)
qed

text \<open>
  C6. With the encoding \<^verbatim>\<open>data_url\<close> and a string that the pattern does not
  match (one that is not \<^verbatim>\<open>data:\<close>, anything, a comma, anything), the upload
  fails and sends no request; on a path that starts with \<^verbatim>\<open>/\<close> it fails with the
  format fault that names the shape \<^verbatim>\<open>data:[<mediatype>][;base64],<data>\<close>.
\<close>

theorem malformed_data_url:
  "type params = Some ''data_url''
     \<and> \<not> (\<exists>m r. data params = ''data:'' @ m @ CHR '','' # r) \<longrightarrow>
   snd (fst (uploadStringToStorage u this tr params)) = []
   \<and> (\<exists>e. fst (fst (uploadStringToStorage u this tr params)) = Inl e)
   \<and> (startsWith (path params) ''/'' \<longrightarrow>
        fst (uploadStringToStorage u this tr params)
          = (Inl (JStr ''Data must be formatted 'data:[<mediatype>][;base64],<data>''), []))"
proof (intro impI, elim conjE)
  assume t: "type params = Some ''data_url''"
    and n: "\<not> (\<exists>m r. data params = ''data:'' @ m @ CHR '','' # r)"
  from n have m: "match_data_url (data params) = None"
    by (simp only: match_data_url_None_iff not_False_eq_True)
  show "snd (fst (uploadStringToStorage u this tr params)) = []
   \<and> (\<exists>e. fst (fst (uploadStringToStorage u this tr params)) = Inl e)
   \<and> (startsWith (path params) ''/'' \<longrightarrow>
        fst (uploadStringToStorage u this tr params)
          = (Inl (JStr ''Data must be formatted 'data:[<mediatype>][;base64],<data>''), []))"
    unfolding uploadStringToStorage_no_match[OF t m] by simp
qed

text \<open>The string \<^verbatim>\<open>not-a-data-url\<close>.\<close>

theorem malformed_data_url_witness:
  "\<not> (\<exists>m r. ''not-a-data-url'' = ''data:'' @ m @ CHR '','' # r)
   \<and> fst (uploadStringToStorage spec_utils example_client transport_ok
        \<lparr>path = ''/hello.txt'', onUploadProgress = None, data = ''not-a-data-url'',
         type = Some ''data_url'', metadata' = None\<rparr>)
     = (Inl (JStr ''Data must be formatted 'data:[<mediatype>][;base64],<data>''), [])"
  using malformed_data_url
    [of "\<lparr>path = ''/hello.txt'', onUploadProgress = None, data = ''not-a-data-url'',
         type = Some ''data_url'', metadata' = None\<rparr>" spec_utils example_client
        transport_ok]
  by (simp add: startsWith_def)

text \<open>
  C7. Each of the six operations of the adapter sends one request. On every one
  of them the \<^verbatim>\<open>Authorization\<close> header is \<^verbatim>\<open>Bearer\<close>, a space and the token when a
  non-empty token is set, and is absent when no token is set or the token is
  the empty string; so the header is never sent with an empty token. After a
  token was set and then cleared with \<^verbatim>\<open>setAccessToken(undefined)\<close> the header is
  absent from every request.
\<close>

theorem authorization_header:
  "length (adapter_requests this tr params fileId p formData cb) = 6
   \<and> (\<forall>rq \<in> set (adapter_requests this tr params fileId p formData cb).
        map_of (req_headers rq) ''Authorization'' =
          (if truthy_string (accessToken this)
           then map_option (\<lambda>t. ''Bearer '' @ t) (accessToken this)
           else None))
   \<and> (\<forall>rq \<in> set (adapter_requests (api_setAccessToken (api_setAccessToken this t) None)
                     tr params fileId p formData cb).
        map_of (req_headers rq) ''Authorization'' = None)"
  by (simp add: api_eqs Let_def auth_lookup upload_headers_lookup api_setAccessToken_def)

text \<open>A token set, and a token set and then cleared.\<close>

theorem authorization_header_witness:
  "\<lparr>req_method = DELETE, req_baseURL = ''https://storage.example'', req_timeout = 10000,
     req_url = ''/o/a.bin'', req_headers = [(''Authorization'', ''Bearer tok'')],
     req_data = None, req_onUploadProgress = None\<rparr>
     \<in> set (snd (api_deleteFile (api (setAccessToken example_client (Some ''tok'')))
                transport_ok ''/a.bin''))
   \<and> map_of (req_headers
        \<lparr>req_method = DELETE, req_baseURL = ''https://storage.example'', req_timeout = 10000,
         req_url = ''/o/a.bin'', req_headers = [(''Authorization'', ''Bearer tok'')],
         req_data = None, req_onUploadProgress = None\<rparr>) ''Authorization''
      = Some ''Bearer tok''
   \<and> snd (api_deleteFile
        (api (setAccessToken (setAccessToken example_client (Some ''tok'')) None))
        transport_ok ''/a.bin'')
      = [\<lparr>req_method = DELETE, req_baseURL = ''https://storage.example'', req_timeout = 10000,
          req_url = ''/o/a.bin'', req_headers = [],
          req_data = None, req_onUploadProgress = None\<rparr>]"
  using authorization_header
    [of "api (setAccessToken example_client (Some ''tok''))" transport_ok example_upload
        "''f1''" "''/a.bin''" "[(''file'', example_file)]" None None]
  by (simp add: api_eqs Let_def example_defs)

text \<open>
  C8, as amended. The request of the adapter's \<^verbatim>\<open>upload\<close> carries each of the
  headers \<^verbatim>\<open>x-nhost-bucket-id\<close>, \<^verbatim>\<open>x-nhost-file-id\<close> and \<^verbatim>\<open>x-nhost-file-name\<close>
  exactly when the field \<^verbatim>\<open>bucketId\<close>, \<^verbatim>\<open>id\<close> or \<^verbatim>\<open>name\<close> is a non-empty
  string, with the field as its value; a field set to the empty string is
  treated as an unset one.
\<close>

theorem upload_headers_attached:
  "\<exists>rq. snd (api_upload this tr params) = [rq]
     \<and> map_of (req_headers rq) ''x-nhost-bucket-id'' =
         (if truthy_string (bucketId params) then bucketId params else None)
     \<and> map_of (req_headers rq) ''x-nhost-file-id'' =
         (if truthy_string (id' params) then id' params else None)
     \<and> map_of (req_headers rq) ''x-nhost-file-name'' =
         (if truthy_string (name params) then name params else None)"
  by (simp add: api_upload_eq Let_def auth_keeps_others upload_headers_lookup)

text \<open>
  As stated the claim fails: a bucket id set to the empty string gets no header,
  and the request is the one of an upload with no bucket id.
\<close>

theorem upload_headers_counterexample:
  "map_of (generateUploadHeaders
       \<lparr>upload_file = [(''file'', example_file)], bucketId = Some '''', id' = None, name = None\<rparr>)
     ''x-nhost-bucket-id'' = None
   \<and> snd (api_upload (api example_client) transport_ok
       \<lparr>upload_file = [(''file'', example_file)], bucketId = Some '''', id' = None, name = None\<rparr>)
     = snd (api_upload (api example_client) transport_ok
       \<lparr>upload_file = [(''file'', example_file)], bucketId = None, id' = None, name = None\<rparr>)"
  by (simp add: api_upload_eq Let_def generateUploadHeaders_def)

text \<open>
  C9. \<^verbatim>\<open>getUrl\<close> is a total function of the client and the file id, with no
  request and no failure. With no tenant namespace it returns the base URL
  followed by \<^verbatim>\<open>/files/\<close> and the file id, so \<^verbatim>\<open>{baseUrl}/files/abc\<close> for the id
  \<^verbatim>\<open>abc\<close>; with the tenant namespace \<^verbatim>\<open>t1\<close> it returns \<^verbatim>\<open>/custom/storage/t1/o/abc\<close>,
  and with any non-empty namespace the path of that form.
\<close>

theorem getUrl_forms:
  "getUrl \<lparr>url = baseUrl, api = a, appId = None\<rparr> fileId = baseUrl @ ''/files/'' @ fileId
   \<and> getUrl \<lparr>url = baseUrl, api = a, appId = None\<rparr> ''abc'' = baseUrl @ ''/files/abc''
   \<and> getUrl \<lparr>url = baseUrl, api = a, appId = Some ''t1''\<rparr> ''abc''
       = ''/custom/storage/t1/o/abc''
   \<and> getUrl \<lparr>url = baseUrl, api = a, appId = Some (c # cs)\<rparr> fileId
       = ''/custom/storage/'' @ (c # cs) @ ''/o/'' @ fileId"
  by (simp add: getUrl_def)

text \<open>
  C10. \<^verbatim>\<open>uploadStringToStorage\<close> writes to the parameter object of its caller:
  once the path has passed its check, an unset \<^verbatim>\<open>type\<close> becomes \<^verbatim>\<open>raw\<close>. When the
  path fails its check or \<^verbatim>\<open>type\<close> is set the object is left as it was, and in
  every case no field other than \<^verbatim>\<open>type\<close> changes.
\<close>

theorem default_type_written:
  "(startsWith (path params) ''/'' \<and> \<not> truthy_string (type params) \<longrightarrow>
      snd (uploadStringToStorage u this tr params) = params\<lparr>type := Some ''raw''\<rparr>)
   \<and> (\<not> startsWith (path params) ''/'' \<or> truthy_string (type params) \<longrightarrow>
      snd (uploadStringToStorage u this tr params) = params)
   \<and> (\<exists>t. snd (uploadStringToStorage u this tr params) = params\<lparr>type := t\<rparr>)"
proof -
  have "\<exists>t. (if startsWith (path params) ''/'' \<and> \<not> truthy_string (type params)
       then params\<lparr>type := Some ''raw''\<rparr> else params) = params\<lparr>type := t\<rparr>"
  proof (cases "startsWith (path params) ''/'' \<and> \<not> truthy_string (type params)")
    case True
    then show ?thesis by auto
  next
    case False
    have "params = params\<lparr>type := type params\<rparr>" by simp
    with False show ?thesis by (metis (full_types))
  qed
  then show ?thesis unfolding uploadStringToStorage_params by auto
qed

text \<open>An unset type on a path that passes the check, and on one that fails it.\<close>

theorem default_type_written_witness:
  "startsWith ''/hello.txt'' ''/''
   \<and> snd (uploadStringToStorage spec_utils example_client transport_ok
        \<lparr>path = ''/hello.txt'', onUploadProgress = None, data = ''Hello'',
         type = None, metadata' = None\<rparr>)
     = \<lparr>path = ''/hello.txt'', onUploadProgress = None, data = ''Hello'',
         type = Some ''raw'', metadata' = None\<rparr>
   \<and> snd (uploadStringToStorage spec_utils example_client transport_ok
        \<lparr>path = ''hello.txt'', onUploadProgress = None, data = ''Hello'',
         type = None, metadata' = None\<rparr>)
     = \<lparr>path = ''hello.txt'', onUploadProgress = None, data = ''Hello'',
         type = None, metadata' = None\<rparr>"
  using default_type_written
    [of "\<lparr>path = ''/hello.txt'', onUploadProgress = None, data = ''Hello'',
         type = None, metadata' = None\<rparr>" spec_utils example_client transport_ok]
    default_type_written
    [of "\<lparr>path = ''hello.txt'', onUploadProgress = None, data = ''Hello'',
         type = None, metadata' = None\<rparr>" spec_utils example_client transport_ok]
  by (simp add: startsWith_def)

end
